theory Spec2Isabelle
  imports Main
begin

section \<open>The in-memory task registry of the scheduler\<close>

text \<open>
  The registry (\<^verbatim>\<open>inMemoryTaskRegistry\<close>) keeps pointers to \<^verbatim>\<open>PodTask\<close> objects in a map
  from task id, a second map from pod key to task id, and a \<^verbatim>\<open>container/ring\<close> of the ids
  of finished tasks. The handlers of \<^verbatim>\<open>updateStatus\<close> write through those pointers, so the
  model has an explicit heap of \<^verbatim>\<open>PodTask\<close> objects; the registry maps hold addresses. A
  nil pointer is \<open>None\<close>, and dereferencing it is the panic \<open>NilPointerDereference\<close>.
  \<^verbatim>\<open>register\<close> is the only writer of the task table and panics on a nil task before it
  stores anything, so the table holds no nil pointer. The reader/writer lock is not
  modelled: every operation is one atomic step.
\<close>

subsection \<open>Data\<close>

type_synonym addr = nat

text \<open>An instant (\<^verbatim>\<open>time.Time\<close>). The value \<^verbatim>\<open>time.Now()\<close> reads is an argument of the model.\<close>

type_synonym Time = int

text \<open>
  Modelled from the spec: \<^verbatim>\<open>StateType\<close> and \<^verbatim>\<open>PodTask\<close> are declared in a file that is not
  among the sources. Section 3 of the specification lists the states and the fields; the
  registry code reads and writes exactly these.
\<close>

datatype StateType = StatePending | StateRunning | StateFinished | StateUnknown

datatype FlagType = Deleted | OtherFlag string

text \<open>
  \<^verbatim>\<open>api.PodInfo\<close> is a map from container name to a container status, of which the code
  reads the field \<^verbatim>\<open>PodIP\<close>; \<^verbatim>\<open>api.PodPhase\<close> is a string type.
\<close>

record ContainerStatus =
  PodIP :: string

type_synonym PodInfo = "string \<rightharpoonup> ContainerStatus"

record PodStatus =
  Phase :: string
  Info :: PodInfo
  Status_PodIP :: string

record api_Pod =
  Name :: string
  Status :: PodStatus

record PodTask =
  ID :: string
  podKey :: string
  Pod :: api_Pod
  State :: StateType
  Flags :: "FlagType set"
  launchTime :: Time
  bindTime :: Time
  UpdatedTime :: Time

type_synonym heap = "addr \<Rightarrow> PodTask"

text \<open>
  \<^verbatim>\<open>mesos.TaskStatus\<close>, through the getters the code calls: \<^verbatim>\<open>GetTaskId().GetValue()\<close>,
  \<^verbatim>\<open>GetState()\<close>, and the field \<^verbatim>\<open>Data\<close> (a byte slice, nil is \<open>None\<close>). \<open>TASK_OTHER\<close>
  stands for every enum value that \<^verbatim>\<open>updateStatus\<close> sends to its default branch.
\<close>

datatype TaskState =
  TASK_STAGING | TASK_STARTING | TASK_RUNNING | TASK_FINISHED
  | TASK_FAILED | TASK_KILLED | TASK_LOST | TASK_OTHER

record TaskStatus =
  GetTaskId :: string
  GetState :: TaskState
  Data :: "string option"

text \<open>
  \<^verbatim>\<open>container/ring\<close>: \<^verbatim>\<open>ring.New(n)\<close> is a cycle of \<open>n\<close> elements with nil values, and
  the registry holds a pointer to one element. The cycle is never relinked, so it is the
  list of its values (nil is \<open>None\<close>) with the index \<open>cur\<close> of the element pointed to;
  \<^verbatim>\<open>Next()\<close> is the index after it, cyclically. \<^verbatim>\<open>ring.New(0)\<close> is the nil ring, here the
  empty list.
\<close>

record Ring =
  slots :: "string option list"
  cur :: nat

record inMemoryTaskRegistry =
  taskRegistry :: "string \<rightharpoonup> addr"
  tasksFinished :: Ring
  podToTask :: "string \<rightharpoonup> string"

text \<open>What \<^verbatim>\<open>glog\<close> is asked to write: the severity (or the verbosity level of a
  \<^verbatim>\<open>log.V(n).Info\<close>) and the format string.\<close>

datatype Severity = INFO | WARNING | ERROR

datatype LogEntry = Log Severity string | LogV nat string

datatype panic = NilPointerDereference | Panic string

subsection \<open>Constants and constructor\<close>

definition NetContainerID :: string where
  "NetContainerID = ''net''"

definition defaultFinishedTasksSize :: nat where
  "defaultFinishedTasksSize = 1024"

definition PodRunning :: string where
  "PodRunning = ''Running''"

definition ring_New :: "nat \<Rightarrow> Ring" where
  "ring_New n = \<lparr>slots = replicate n None, cur = 0\<rparr>"

definition NewInMemoryTaskRegistry :: inMemoryTaskRegistry where
  "NewInMemoryTaskRegistry =
     \<lparr>taskRegistry = Map.empty,
      tasksFinished = ring_New defaultFinishedTasksSize,
      podToTask = Map.empty\<rparr>"

subsection \<open>Registry operations\<close>

text \<open>Reading a field through a pointer: a nil pointer panics.\<close>

definition deref :: "addr option \<Rightarrow> (addr \<Rightarrow> panic + 'a) \<Rightarrow> panic + 'a" where
  "deref task f = (case task of None \<Rightarrow> Inl NilPointerDereference | Some t \<Rightarrow> f t)"

definition taskForPod :: "inMemoryTaskRegistry \<Rightarrow> string \<Rightarrow> string \<times> bool" where
  "taskForPod k podID =
     (case podToTask k podID of Some taskID \<Rightarrow> (taskID, True) | None \<Rightarrow> ('''', False))"

text \<open>\<^verbatim>\<open>register\<close>: the error is the caller's; the result carries the task and the error
  that came in.\<close>

definition register ::
  "heap \<Rightarrow> inMemoryTaskRegistry \<Rightarrow> addr option \<Rightarrow> 'e option
     \<Rightarrow> panic + (inMemoryTaskRegistry \<times> addr option \<times> 'e option)" where
  "register h k task err =
     (case err of
        None \<Rightarrow>
          deref task (\<lambda>t.
            Inr (k\<lparr>podToTask := (podToTask k)(podKey (h t) \<mapsto> ID (h t)),
                    taskRegistry := (taskRegistry k)(ID (h t) \<mapsto> t)\<rparr>,
                 task, err))
      | Some e \<Rightarrow> Inr (k, task, err))"

definition unregister ::
  "heap \<Rightarrow> inMemoryTaskRegistry \<Rightarrow> addr option \<Rightarrow> panic + inMemoryTaskRegistry" where
  "unregister h k task =
     deref task (\<lambda>t.
       Inr (k\<lparr>podToTask := (podToTask k)(podKey (h t) := None),
               taskRegistry := (taskRegistry k)(ID (h t) := None)\<rparr>))"

text \<open>\<^verbatim>\<open>_get\<close> of the source.\<close>

definition get' :: "heap \<Rightarrow> inMemoryTaskRegistry \<Rightarrow> string \<Rightarrow> addr option \<times> StateType" where
  "get' h k taskId =
     (case taskRegistry k taskId of
        Some task \<Rightarrow> (Some task, State (h task))
      | None \<Rightarrow> (None, StateUnknown))"

definition get :: "heap \<Rightarrow> inMemoryTaskRegistry \<Rightarrow> string \<Rightarrow> addr option \<times> StateType" where
  "get h k taskId = get' h k taskId"

subsection \<open>The finished-task ring\<close>

text \<open>
  \<^verbatim>\<open>recordFinishedTask\<close> writes the slot's value and may delete from the task table; it
  returns the slot, and leaves the registry's own pointer where it was.
\<close>

definition recordFinishedTask ::
  "heap \<Rightarrow> inMemoryTaskRegistry \<Rightarrow> string \<Rightarrow> panic + (inMemoryTaskRegistry \<times> nat)" where
  "recordFinishedTask h k taskId =
     (let r = tasksFinished k in
      if slots r = [] then Inl NilPointerDereference
      else
        let slot = (cur r + 1) mod length (slots r);
            k1 = (case slots r ! slot of
                    Some gctaskId \<Rightarrow>
                      (case taskRegistry k gctaskId of
                         Some gctask \<Rightarrow>
                           if State (h gctask) = StateFinished
                           then k\<lparr>taskRegistry := (taskRegistry k)(gctaskId := None)\<rparr>
                           else k
                       | None \<Rightarrow> k)
                  | None \<Rightarrow> k)
        in Inr (k1\<lparr>tasksFinished := r\<lparr>slots := (slots r)[slot := Some taskId]\<rparr>\<rparr>, slot))"

text \<open>The statement \<^verbatim>\<open>k.tasksFinished = k.recordFinishedTask(id)\<close> of
  \<^verbatim>\<open>handleTaskFinished\<close>: record, then move the registry's pointer to the slot.\<close>

definition recordFinished ::
  "heap \<Rightarrow> inMemoryTaskRegistry \<Rightarrow> string \<Rightarrow> panic + inMemoryTaskRegistry" where
  "recordFinished h k taskId =
     (case recordFinishedTask h k taskId of
        Inl p \<Rightarrow> Inl p
      | Inr (k', slot) \<Rightarrow> Inr (k'\<lparr>tasksFinished := (tasksFinished k')\<lparr>cur := slot\<rparr>\<rparr>))"


subsection \<open>The status handlers\<close>

text \<open>
  Every handler returns the heap and the registry it leaves, and what it logged, or the
  panic that ended it. \<open>now\<close> is the value of \<^verbatim>\<open>time.Now()\<close>; \<open>unmarshal\<close> is
  \<^verbatim>\<open>json.Unmarshal\<close> into an \<^verbatim>\<open>api.PodInfo\<close>, \<open>None\<close> when it returns an error.
\<close>

type_synonym handled = "panic + (heap \<times> inMemoryTaskRegistry \<times> LogEntry list)"

definition handleTaskStaging ::
  "heap \<Rightarrow> inMemoryTaskRegistry \<Rightarrow> addr option \<Rightarrow> StateType \<Rightarrow> TaskStatus \<Rightarrow> handled" where
  "handleTaskStaging h k task state status =
     Inr (h, k, [Log ERROR ''Not implemented: task staging''])"

definition handleTaskStarting ::
  "Time \<Rightarrow> heap \<Rightarrow> inMemoryTaskRegistry \<Rightarrow> addr option \<Rightarrow> StateType \<Rightarrow> TaskStatus
     \<Rightarrow> handled" where
  "handleTaskStarting now h k task state status =
     (case state of
        StatePending \<Rightarrow>
          deref task (\<lambda>t.
            Inr (h(t := (h t)\<lparr>UpdatedTime := now, bindTime := now\<rparr>), k,
                 [LogV 1 ''metric time_to_bind %v task %v pod %v'']))
      | _ \<Rightarrow>
          Inr (h, k,
               [Log WARNING ''Ignore status TASK_STARTING because the the task is not pending'']))"

definition fillRunningPodInfo ::
  "(string \<Rightarrow> PodInfo option) \<Rightarrow> PodTask \<Rightarrow> TaskStatus \<Rightarrow> PodTask \<times> LogEntry list" where
  "fillRunningPodInfo unmarshal task taskStatus =
     (let task1 = task\<lparr>Pod := (Pod task)\<lparr>Status := (Status (Pod task))\<lparr>Phase := PodRunning\<rparr>\<rparr>\<rparr>
      in case Data taskStatus of
           Some data \<Rightarrow>
             (case unmarshal data of
                Some info \<Rightarrow>
                  (let task2 =
                         task1\<lparr>Pod := (Pod task1)\<lparr>Status := (Status (Pod task1))\<lparr>Info := info\<rparr>\<rparr>\<rparr>
                   in case info NetContainerID of
                        Some netContainerInfo \<Rightarrow>
                          if PodIP netContainerInfo \<noteq> ''''
                          then (task2\<lparr>Pod := (Pod task2)\<lparr>Status :=
                                   (Status (Pod task2))\<lparr>Status_PodIP := PodIP netContainerInfo\<rparr>\<rparr>\<rparr>,
                                [])
                          else (task2, [Log WARNING ''No network settings: %#v''])
                      | None \<Rightarrow>
                          (task2, [Log WARNING ''Couldn't find network container for %s in %v'']))
              | None \<Rightarrow> (task1, [Log ERROR ''Invalid TaskStatus.Data for task '%v': %v'']))
         | None \<Rightarrow> (task1, [Log ERROR ''Missing TaskStatus.Data for task '%v'']))"

definition handleTaskRunning ::
  "(string \<Rightarrow> PodInfo option) \<Rightarrow> Time \<Rightarrow> heap \<Rightarrow> inMemoryTaskRegistry \<Rightarrow> addr option
     \<Rightarrow> StateType \<Rightarrow> TaskStatus \<Rightarrow> handled" where
  "handleTaskRunning unmarshal now h k task state status =
     (case state of
        StatePending \<Rightarrow>
          deref task (\<lambda>t.
            case fillRunningPodInfo unmarshal ((h t)\<lparr>UpdatedTime := now\<rparr>) status of
              (task', lg) \<Rightarrow>
                Inr (h(t := task'\<lparr>State := StateRunning\<rparr>), k,
                     Log INFO ''Received running status for pending task: %+v'' # lg))
      | StateRunning \<Rightarrow>
          deref task (\<lambda>t.
            Inr (h(t := (h t)\<lparr>UpdatedTime := now\<rparr>), k,
                 [LogV 2 ''Ignore status TASK_RUNNING because the the task is already running'']))
      | StateFinished \<Rightarrow>
          Inr (h, k,
               [Log WARNING ''Ignore status TASK_RUNNING because the the task is already finished''])
      | StateUnknown \<Rightarrow>
          deref task (\<lambda>t.
            Inr (h, k,
                 [Log WARNING
                    ''Ignore status TASK_RUNNING (%s) because the the task is discarded''])))"

definition handleTaskFinished ::
  "Time \<Rightarrow> heap \<Rightarrow> inMemoryTaskRegistry \<Rightarrow> addr option \<Rightarrow> StateType \<Rightarrow> TaskStatus
     \<Rightarrow> handled" where
  "handleTaskFinished now h k task state status =
     (case state of
        StatePending \<Rightarrow> Inl (Panic ''Pending task finished, this couldn't happen'')
      | StateRunning \<Rightarrow>
          deref task (\<lambda>t.
            let k1 = k\<lparr>podToTask := (podToTask k)(podKey (h t) := None)\<rparr>;
                h1 = h(t := (h t)\<lparr>State := StateFinished, UpdatedTime := now\<rparr>)
            in case recordFinished h1 k1 (ID (h1 t)) of
                 Inl p \<Rightarrow> Inl p
               | Inr k2 \<Rightarrow>
                   Inr (h1, k2, [LogV 2 ''received finished status for running task: %+v'']))
      | StateFinished \<Rightarrow>
          Inr (h, k,
               [Log WARNING ''Ignore status TASK_FINISHED because the the task is already finished''])
      | StateUnknown \<Rightarrow>
          Inr (h, k,
               [Log WARNING ''Ignore status TASK_FINISHED because the the task is not running'']))"

text \<open>The two deletions that the handlers of the abnormal terminations share.\<close>

definition deleteBoth :: "heap \<Rightarrow> inMemoryTaskRegistry \<Rightarrow> addr \<Rightarrow> inMemoryTaskRegistry" where
  "deleteBoth h k t =
     k\<lparr>taskRegistry := (taskRegistry k)(ID (h t) := None),
       podToTask := (podToTask k)(podKey (h t) := None)\<rparr>"

definition handleTaskFailed ::
  "heap \<Rightarrow> inMemoryTaskRegistry \<Rightarrow> addr option \<Rightarrow> StateType \<Rightarrow> TaskStatus \<Rightarrow> handled" where
  "handleTaskFailed h k task state status =
     (let lg = [Log ERROR ''task failed: %+v''] in
      case state of
        StatePending \<Rightarrow> deref task (\<lambda>t. Inr (h, deleteBoth h k t, lg))
      | StateRunning \<Rightarrow> deref task (\<lambda>t. Inr (h, deleteBoth h k t, lg))
      | _ \<Rightarrow> Inr (h, k, lg))"

text \<open>The deferred function of \<^verbatim>\<open>handleTaskKilled\<close> logs when the handler returns;
  \<^verbatim>\<open>task.Has(Deleted)\<close> is membership in the task's flags.\<close>

definition handleTaskKilled ::
  "heap \<Rightarrow> inMemoryTaskRegistry \<Rightarrow> addr option \<Rightarrow> StateType \<Rightarrow> TaskStatus \<Rightarrow> handled" where
  "handleTaskKilled h k task state status =
     (let lg = (case task of
                  Some t \<Rightarrow>
                    if Deleted \<in> Flags (h t)
                    then [LogV 2 ''task killed: %+v, task %+v'']
                    else [Log ERROR ''task killed: %+v, task %+v'']
                | None \<Rightarrow> [Log ERROR ''task killed: %+v, task %+v''])
      in case state of
           StatePending \<Rightarrow> deref task (\<lambda>t. Inr (h, deleteBoth h k t, lg))
         | StateRunning \<Rightarrow> deref task (\<lambda>t. Inr (h, deleteBoth h k t, lg))
         | _ \<Rightarrow> Inr (h, k, lg))"

definition handleTaskLost ::
  "heap \<Rightarrow> inMemoryTaskRegistry \<Rightarrow> addr option \<Rightarrow> StateType \<Rightarrow> TaskStatus \<Rightarrow> handled" where
  "handleTaskLost h k task state status =
     (let lg = [Log WARNING ''task lost: %+v''] in
      case state of
        StateRunning \<Rightarrow> deref task (\<lambda>t. Inr (h, deleteBoth h k t, lg))
      | StatePending \<Rightarrow> deref task (\<lambda>t. Inr (h, deleteBoth h k t, lg))
      | _ \<Rightarrow> Inr (h, k, lg))"

text \<open>\<^verbatim>\<open>updateStatus\<close> returns the task and the state it found before the handler ran.\<close>

definition updateStatus ::
  "(string \<Rightarrow> PodInfo option) \<Rightarrow> Time \<Rightarrow> heap \<Rightarrow> inMemoryTaskRegistry \<Rightarrow> TaskStatus
     \<Rightarrow> panic + (heap \<times> inMemoryTaskRegistry \<times> (addr option \<times> StateType) \<times> LogEntry list)" where
  "updateStatus unmarshal now h k status =
     (case get' h k (GetTaskId status) of
        (task, state) \<Rightarrow>
          (case (case GetState status of
                   TASK_STAGING \<Rightarrow> handleTaskStaging h k task state status
                 | TASK_STARTING \<Rightarrow> handleTaskStarting now h k task state status
                 | TASK_RUNNING \<Rightarrow> handleTaskRunning unmarshal now h k task state status
                 | TASK_FINISHED \<Rightarrow> handleTaskFinished now h k task state status
                 | TASK_FAILED \<Rightarrow> handleTaskFailed h k task state status
                 | TASK_KILLED \<Rightarrow> handleTaskKilled h k task state status
                 | TASK_LOST \<Rightarrow> handleTaskLost h k task state status
                 | TASK_OTHER \<Rightarrow>
                     Inr (h, k, [Log WARNING ''unhandled task status update: %+v'']))
           of Inl p \<Rightarrow> Inl p
            | Inr (h', k', lg) \<Rightarrow> Inr (h', k', (task, state), lg)))"

text \<open>A sequence of \<^verbatim>\<open>updateStatus\<close> calls, each with the instant it reads; a panic ends
  the sequence.\<close>

fun updateStatusAll ::
  "(string \<Rightarrow> PodInfo option) \<Rightarrow> heap \<Rightarrow> inMemoryTaskRegistry \<Rightarrow> (Time \<times> TaskStatus) list
     \<Rightarrow> panic + (heap \<times> inMemoryTaskRegistry)" where
  "updateStatusAll unmarshal h k [] = Inr (h, k)"
| "updateStatusAll unmarshal h k ((now, status) # rest) =
     (case updateStatus unmarshal now h k status of
        Inl p \<Rightarrow> Inl p
      | Inr (h', k', _, _) \<Rightarrow> updateStatusAll unmarshal h' k' rest)"

text \<open>\<^verbatim>\<open>register(task, nil)\<close> followed by \<^verbatim>\<open>unregister\<close> of the task it returned.\<close>

definition register_unregister ::
  "heap \<Rightarrow> inMemoryTaskRegistry \<Rightarrow> addr option \<Rightarrow> panic + inMemoryTaskRegistry" where
  "register_unregister h k task =
     (case register h k task (None :: unit option) of
        Inl p \<Rightarrow> Inl p
      | Inr (k', task', _) \<Rightarrow> unregister h k' task')"

text \<open>The order of the task states along the normal path: Pending, then Running, then
  Finished. \<open>StateUnknown\<close> is comparable with itself only.\<close>

fun state_le :: "StateType \<Rightarrow> StateType \<Rightarrow> bool" where
  "state_le StatePending s = (s = StatePending \<or> s = StateRunning \<or> s = StateFinished)"
| "state_le StateRunning s = (s = StateRunning \<or> s = StateFinished)"
| "state_le StateFinished s = (s = StateFinished)"
| "state_le StateUnknown s = (s = StateUnknown)"



subsection \<open>Tasks and heaps of the scenarios\<close>

definition task_of :: "string \<Rightarrow> string \<Rightarrow> StateType \<Rightarrow> PodTask" where
  "task_of i p s =
     \<lparr>ID = i, podKey = p,
      Pod = \<lparr>Name = p, Status = \<lparr>Phase = ''Pending'', Info = Map.empty, Status_PodIP = ''''\<rparr>\<rparr>,
      State = s, Flags = {}, launchTime = 0, bindTime = 0, UpdatedTime = 0\<rparr>"

text \<open>Two task objects with the same id and two with the same pod key.\<close>

definition heap2 :: heap where
  "heap2 a =
     (if a = 0 then task_of ''T1'' ''/pods/ns/a'' StatePending
      else if a = 1 then task_of ''T1'' ''/pods/ns/b'' StatePending
      else task_of ''T2'' ''/pods/ns/a'' StatePending)"

text \<open>The registry after \<^verbatim>\<open>register\<close> of the object at address 0 of \<open>heap2\<close>.\<close>

definition registry_T1 :: inMemoryTaskRegistry where
  "registry_T1 =
     NewInMemoryTaskRegistry
       \<lparr>taskRegistry := [''T1'' \<mapsto> 0], podToTask := [''/pods/ns/a'' \<mapsto> ''T1'']\<rparr>"

text \<open>Four finished tasks A, B, C, D in the task table, and an empty ring of three slots.\<close>

definition heap_finished :: heap where
  "heap_finished a =
     (if a = 0 then task_of ''A'' ''/pods/ns/a'' StateFinished
      else if a = 1 then task_of ''B'' ''/pods/ns/b'' StateFinished
      else if a = 2 then task_of ''C'' ''/pods/ns/c'' StateFinished
      else task_of ''D'' ''/pods/ns/d'' StateFinished)"

definition registry_finished :: inMemoryTaskRegistry where
  "registry_finished =
     \<lparr>taskRegistry = [''A'' \<mapsto> 0, ''B'' \<mapsto> 1, ''C'' \<mapsto> 2, ''D'' \<mapsto> 3],
      tasksFinished = ring_New 3,
      podToTask = Map.empty\<rparr>"


text \<open>A decoder that knows one payload, a pod-info whose container \<^verbatim>\<open>net\<close> has the
  address 10.0.0.7.\<close>

definition unmarshal_net :: "string \<Rightarrow> PodInfo option" where
  "unmarshal_net data =
     (if data = ''net=10.0.0.7''
      then Some [''net'' \<mapsto> \<lparr>PodIP = ''10.0.0.7''\<rparr>]
      else None)"

text \<open>A RUNNING message with a payload and a FINISHED message for the task \<^verbatim>\<open>T1\<close>.\<close>

definition msgs_T1 :: "(Time \<times> TaskStatus) list" where
  "msgs_T1 =
     [(1, \<lparr>GetTaskId = ''T1'', GetState = TASK_RUNNING, Data = Some ''net=10.0.0.7''\<rparr>),
      (2, \<lparr>GetTaskId = ''T1'', GetState = TASK_FINISHED, Data = None\<rparr>)]"

section \<open>The scheduler configuration (package config)\<close>

text \<open>A \<^verbatim>\<open>time.Duration\<close> is a count of nanoseconds; the code only stores and copies
  durations. \<^verbatim>\<open>WrappedDuration\<close> embeds one.\<close>

type_synonym Duration = int

type_synonym WrappedDuration = Duration

definition Second :: Duration where
  "Second = 1000000000"

definition Minute :: Duration where
  "Minute = 60 * Second"

definition DefaultOfferTTL :: Duration where
  "DefaultOfferTTL = 5 * Second"

definition DefaultOfferLingerTTL :: Duration where
  "DefaultOfferLingerTTL = 120 * Second"

definition DefaultListenerDelay :: Duration where
  "DefaultListenerDelay = 1 * Second"

definition DefaultUpdatesBacklog :: int where
  "DefaultUpdatesBacklog = 2048"

definition DefaultFrameworkIdRefreshInterval :: Duration where
  "DefaultFrameworkIdRefreshInterval = 30 * Second"

definition DefaultInitialImplicitReconciliationDelay :: Duration where
  "DefaultInitialImplicitReconciliationDelay = 15 * Second"

definition DefaultExplicitReconciliationMaxBackoff :: Duration where
  "DefaultExplicitReconciliationMaxBackoff = 2 * Minute"

definition DefaultExplicitReconciliationAbortTimeout :: Duration where
  "DefaultExplicitReconciliationAbortTimeout = 30 * Second"

definition DefaultInitialPodBackoff :: Duration where
  "DefaultInitialPodBackoff = 1 * Second"

definition DefaultMaxPodBackoff :: Duration where
  "DefaultMaxPodBackoff = 60 * Second"

definition DefaultHttpHandlerTimeout :: Duration where
  "DefaultHttpHandlerTimeout = 10 * Second"

record Config =
  OfferTTL :: WrappedDuration
  OfferLingerTTL :: WrappedDuration
  ListenerDelay :: WrappedDuration
  UpdatesBacklog :: int
  FrameworkIdRefreshInterval :: WrappedDuration
  InitialImplicitReconciliationDelay :: WrappedDuration
  ExplicitReconciliationMaxBackoff :: WrappedDuration
  ExplicitReconciliationAbortTimeout :: WrappedDuration
  InitialPodBackoff :: WrappedDuration
  MaxPodBackoff :: WrappedDuration
  HttpHandlerTimeout :: WrappedDuration

record ConfigWrapper =
  Scheduler :: Config

text \<open>The \<^verbatim>\<open>gcfg\<close> tag of every field of \<^verbatim>\<open>Config\<close>, as the struct declares it.\<close>

datatype ConfigField =
  F_OfferTTL | F_OfferLingerTTL | F_ListenerDelay | F_UpdatesBacklog
  | F_FrameworkIdRefreshInterval | F_InitialImplicitReconciliationDelay
  | F_ExplicitReconciliationMaxBackoff | F_ExplicitReconciliationAbortTimeout
  | F_InitialPodBackoff | F_MaxPodBackoff | F_HttpHandlerTimeout

fun gcfg_tag :: "ConfigField \<Rightarrow> string" where
  "gcfg_tag F_OfferTTL = ''offer-ttl''"
| "gcfg_tag F_OfferLingerTTL = ''offer-linger-ttl''"
| "gcfg_tag F_ListenerDelay = ''listener-delay''"
| "gcfg_tag F_UpdatesBacklog = ''updates-backlog''"
| "gcfg_tag F_FrameworkIdRefreshInterval = ''framework-id-refresh-interval''"
| "gcfg_tag F_InitialImplicitReconciliationDelay = ''initial-implicit-reconciliation-delay''"
| "gcfg_tag F_ExplicitReconciliationMaxBackoff = ''explicit-reconciliantion-max-backoff''"
| "gcfg_tag F_ExplicitReconciliationAbortTimeout = ''explicit-reconciliantion-abort-timeout''"
| "gcfg_tag F_InitialPodBackoff = ''initial-pod-backoff''"
| "gcfg_tag F_MaxPodBackoff = ''max-pod-backoff''"
| "gcfg_tag F_HttpHandlerTimeout = ''http-handler-timeout''"

definition SetDefaults :: "Config \<Rightarrow> Config" where
  "SetDefaults c =
     c\<lparr>OfferTTL := DefaultOfferTTL,
       OfferLingerTTL := DefaultOfferLingerTTL,
       ListenerDelay := DefaultListenerDelay,
       UpdatesBacklog := DefaultUpdatesBacklog,
       FrameworkIdRefreshInterval := DefaultFrameworkIdRefreshInterval,
       InitialImplicitReconciliationDelay := DefaultInitialImplicitReconciliationDelay,
       ExplicitReconciliationMaxBackoff := DefaultExplicitReconciliationMaxBackoff,
       ExplicitReconciliationAbortTimeout := DefaultExplicitReconciliationAbortTimeout,
       InitialPodBackoff := DefaultInitialPodBackoff,
       MaxPodBackoff := DefaultMaxPodBackoff,
       HttpHandlerTimeout := DefaultHttpHandlerTimeout\<rparr>"

text \<open>\<^verbatim>\<open>&Config{}\<close> is the zero value of the struct.\<close>

definition zero_Config :: Config where
  "zero_Config =
     \<lparr>OfferTTL = 0, OfferLingerTTL = 0, ListenerDelay = 0, UpdatesBacklog = 0,
      FrameworkIdRefreshInterval = 0, InitialImplicitReconciliationDelay = 0,
      ExplicitReconciliationMaxBackoff = 0, ExplicitReconciliationAbortTimeout = 0,
      InitialPodBackoff = 0, MaxPodBackoff = 0, HttpHandlerTimeout = 0\<rparr>"

definition CreateDefaultConfig :: Config where
  "CreateDefaultConfig = SetDefaults zero_Config"

text \<open>
  \<^verbatim>\<open>Config.Read\<close>. \<open>ReadInto\<close> is \<^verbatim>\<open>gcfg.ReadInto\<close>, a library outside the repository: from
  the wrapper it is given and the reader it returns the wrapper it has filled, or an
  error. The method mutates nothing but its local \<^verbatim>\<open>wrapper\<close>, which starts as a copy of
  the receiver (\<^verbatim>\<open>Scheduler: *c\<close>; every field of \<^verbatim>\<open>Config\<close> is a number, so the copy
  shares nothing with the receiver); the result is the receiver after the call and the
  error returned.
\<close>

definition Read ::
  "(ConfigWrapper \<Rightarrow> 'r \<Rightarrow> 'e + ConfigWrapper) \<Rightarrow> Config \<Rightarrow> 'r option \<Rightarrow> Config \<times> 'e option" where
  "Read ReadInto c configReader =
     (let wrapper = \<lparr>Scheduler = c\<rparr> in
      case configReader of
        Some r \<Rightarrow>
          (case ReadInto wrapper r of
             Inl err \<Rightarrow> (c, Some err)
           | Inr wrapper' \<Rightarrow> (c, None))
      | None \<Rightarrow> (c, None))"

text \<open>What \<^verbatim>\<open>gcfg.ReadInto\<close> does with a file whose \<^verbatim>\<open>[scheduler]\<close> section sets
  \<^verbatim>\<open>offer-ttl = 10s\<close>: it stores ten seconds in the wrapper's \<^verbatim>\<open>OfferTTL\<close>.\<close>

definition ReadInto_offer_ttl_10s :: "ConfigWrapper \<Rightarrow> string \<Rightarrow> string + ConfigWrapper" where
  "ReadInto_offer_ttl_10s wrapper r =
     Inr (wrapper\<lparr>Scheduler := (Scheduler wrapper)\<lparr>OfferTTL := 10 * Second\<rparr>\<rparr>)"

section \<open>Properties of the registry\<close>

subsection \<open>Auxiliary facts\<close>

lemma heap2_simps:
  "heap2 0 = task_of ''T1'' ''/pods/ns/a'' StatePending"
  "heap2 (Suc 0) = task_of ''T1'' ''/pods/ns/b'' StatePending"
  "heap2 2 = task_of ''T2'' ''/pods/ns/a'' StatePending"
  by (simp_all add: heap2_def)

lemma heap_finished_simps:
  "heap_finished 0 = task_of ''A'' ''/pods/ns/a'' StateFinished"
  "heap_finished (Suc 0) = task_of ''B'' ''/pods/ns/b'' StateFinished"
  "heap_finished 2 = task_of ''C'' ''/pods/ns/c'' StateFinished"
  "heap_finished 3 = task_of ''D'' ''/pods/ns/d'' StateFinished"
  by (simp_all add: heap_finished_def)

lemma registry_eq_iff:
  "k\<lparr>podToTask := p, taskRegistry := q\<rparr> = k \<longleftrightarrow> p = podToTask k \<and> q = taskRegistry k"
  by (cases k) auto

lemma state_le_refl: "state_le s s"
  by (cases s) simp_all

lemma state_le_trans: "state_le a b \<Longrightarrow> state_le b c \<Longrightarrow> state_le a c"
  by (cases a; cases b) auto

subsection \<open>register and unregister\<close>

text \<open>
  Claim C1, as stated, fails: \<^verbatim>\<open>register\<close> has no duplicate check. With \<^verbatim>\<open>T1\<close> already
  in the task table (at address 0), registering a second task object with the id \<^verbatim>\<open>T1\<close>
  returns the nil error and replaces the entry.
\<close>

theorem register_duplicate_counterexample:
  "ID (heap2 1) \<in> dom (taskRegistry registry_T1) \<and>
   taskRegistry registry_T1 ''T1'' = Some 0 \<and>
   register heap2 registry_T1 (Some 1) (None :: string option) =
     Inr (registry_T1\<lparr>podToTask := [''/pods/ns/a'' \<mapsto> ''T1'', ''/pods/ns/b'' \<mapsto> ''T1''],
                      taskRegistry := [''T1'' \<mapsto> 1]\<rparr>,
          Some 1, None)"
  by (simp add: register_def deref_def registry_T1_def heap2_simps task_of_def)

text \<open>
  Claim C1, amended: for every task \<open>t\<close> and the nil error, whatever the tables hold,
  \<^verbatim>\<open>register\<close> returns the task and the nil error, and afterwards the pod key of \<open>t\<close> maps
  to the id of \<open>t\<close> and the id of \<open>t\<close> maps to \<open>t\<close>, replacing what was stored under either
  key; every other entry and the ring are as before.
\<close>

theorem register_overwrites:
  "\<exists>k'. register h k (Some t) (None :: 'e option) = Inr (k', Some t, None)
     \<and> taskRegistry k' = (taskRegistry k)(ID (h t) \<mapsto> t)
     \<and> podToTask k' = (podToTask k)(podKey (h t) \<mapsto> ID (h t))
     \<and> tasksFinished k' = tasksFinished k"
  by (simp add: register_def deref_def)

text \<open>
  Claim C8, as stated, fails: when the task's id and pod key are already in the tables,
  \<^verbatim>\<open>register\<close> followed by \<^verbatim>\<open>unregister\<close> empties the two entries that were there.
\<close>

theorem register_unregister_counterexample:
  "taskRegistry registry_T1 ''T1'' = Some 0 \<and>
   podToTask registry_T1 ''/pods/ns/a'' = Some ''T1'' \<and>
   register_unregister heap2 registry_T1 (Some 0) =
     Inr (registry_T1\<lparr>podToTask := Map.empty, taskRegistry := Map.empty\<rparr>)"
  by (simp add: register_unregister_def register_def unregister_def deref_def registry_T1_def
      heap2_simps task_of_def)

text \<open>
  Claim C8, amended: \<^verbatim>\<open>register(t, nil)\<close> followed by \<^verbatim>\<open>unregister(t)\<close> leaves the registry
  (both tables, and the ring) as it was before exactly when, before the call, the id of
  \<open>t\<close> is not a key of the task table and the pod key of \<open>t\<close> is not a key of the pod table.
\<close>

theorem register_unregister_unchanged:
  "register_unregister h k (Some t) = Inr k \<longleftrightarrow>
     (ID (h t) \<notin> dom (taskRegistry k) \<and> podKey (h t) \<notin> dom (podToTask k))"
  by (auto simp add: register_unregister_def register_def unregister_def deref_def
      registry_eq_iff fun_upd_idem_iff domIff)

theorem register_unregister_unchanged_witness:
  "ID (heap2 0) \<notin> dom (taskRegistry NewInMemoryTaskRegistry) \<and>
   podKey (heap2 0) \<notin> dom (podToTask NewInMemoryTaskRegistry) \<and>
   register_unregister heap2 NewInMemoryTaskRegistry (Some 0) = Inr NewInMemoryTaskRegistry"
  using register_unregister_unchanged [of heap2 NewInMemoryTaskRegistry 0]
  by (simp add: NewInMemoryTaskRegistry_def)

text \<open>
  Claim C9: for every task \<open>t\<close>, \<^verbatim>\<open>unregister(t)\<close> deletes the entry of the pod table under
  the pod key of \<open>t\<close> whatever task id that entry holds; no active task is found for that
  pod afterwards.
\<close>

theorem unregister_deletes_pod_entry:
  "\<exists>k'. unregister h k (Some t) = Inr k'
     \<and> podToTask k' = (podToTask k)(podKey (h t) := None)
     \<and> taskForPod k' (podKey (h t)) = ('''', False)"
  by (simp add: unregister_def deref_def taskForPod_def)

text \<open>The pod \<^verbatim>\<open>/pods/ns/a\<close> is linked to \<^verbatim>\<open>T1\<close>; unregistering the task \<^verbatim>\<open>T2\<close>, which has
  the same pod key, removes the link although \<^verbatim>\<open>T1\<close> stays in the task table.\<close>

theorem unregister_deletes_pod_entry_witness:
  "podToTask registry_T1 ''/pods/ns/a'' = Some ''T1'' \<and>
   ID (heap2 2) = ''T2'' \<and> podKey (heap2 2) = ''/pods/ns/a'' \<and>
   (\<exists>k'. unregister heap2 registry_T1 (Some 2) = Inr k'
      \<and> podToTask k' ''/pods/ns/a'' = None
      \<and> taskRegistry k' ''T1'' = Some 0
      \<and> taskForPod k' ''/pods/ns/a'' = ('''', False))"
proof -
  from unregister_deletes_pod_entry [of heap2 registry_T1 2] obtain k' where
    "unregister heap2 registry_T1 (Some 2) = Inr k'"
    "podToTask k' = (podToTask registry_T1)(podKey (heap2 2) := None)"
    "taskForPod k' (podKey (heap2 2)) = ('''', False)"
    by blast
  then show ?thesis
    by (auto simp add: unregister_def deref_def registry_T1_def heap2_simps task_of_def)
qed

subsection \<open>updateStatus on single messages\<close>

text \<open>
  Claim C4: for every task in state Pending, a FINISHED message makes \<^verbatim>\<open>updateStatus\<close>
  panic; the call does not return, and nothing catches the panic.
\<close>

theorem updateStatus_pending_finished_panics:
  assumes "taskRegistry k (GetTaskId status) = Some t"
    and "State (h t) = StatePending"
    and "GetState status = TASK_FINISHED"
  shows "updateStatus unmarshal now h k status =
           Inl (Panic ''Pending task finished, this couldn't happen'')"
  using assms by (simp add: updateStatus_def get'_def handleTaskFinished_def)

theorem updateStatus_pending_finished_panics_witness:
  "taskRegistry registry_T1 ''T1'' = Some 0 \<and> State (heap2 0) = StatePending \<and>
   updateStatus unmarshal_net 7 heap2 registry_T1
       \<lparr>GetTaskId = ''T1'', GetState = TASK_FINISHED, Data = None\<rparr> =
     Inl (Panic ''Pending task finished, this couldn't happen'')"
  using updateStatus_pending_finished_panics
    [of registry_T1 "\<lparr>GetTaskId = ''T1'', GetState = TASK_FINISHED, Data = None\<rparr>" 0 heap2
      unmarshal_net 7]
  by (simp add: registry_T1_def heap2_simps task_of_def)

text \<open>
  Claim C10: for every task whose state is Finished, a FAILED, KILLED or LOST message
  leaves the heap (so every field of the task) and the registry (both tables and the
  ring) as they were; \<^verbatim>\<open>updateStatus\<close> returns the task and the state Finished.
\<close>

theorem updateStatus_finished_abnormal_noop:
  assumes "taskRegistry k (GetTaskId status) = Some t"
    and "State (h t) = StateFinished"
    and "GetState status \<in> {TASK_FAILED, TASK_KILLED, TASK_LOST}"
  shows "\<exists>lg. updateStatus unmarshal now h k status = Inr (h, k, (Some t, StateFinished), lg)"
  using assms
  by (auto simp add: updateStatus_def get'_def handleTaskFailed_def handleTaskKilled_def
      handleTaskLost_def)

theorem updateStatus_finished_abnormal_noop_witness:
  "taskRegistry registry_finished ''A'' = Some 0 \<and> State (heap_finished 0) = StateFinished \<and>
   (\<exists>lg. updateStatus unmarshal_net 9 heap_finished registry_finished
            \<lparr>GetTaskId = ''A'', GetState = TASK_KILLED, Data = None\<rparr> =
          Inr (heap_finished, registry_finished, (Some 0, StateFinished), lg))"
  using updateStatus_finished_abnormal_noop
    [of registry_finished "\<lparr>GetTaskId = ''A'', GetState = TASK_KILLED, Data = None\<rparr>" 0
      heap_finished unmarshal_net 9]
  by (simp add: registry_finished_def heap_finished_simps task_of_def)

text \<open>
  Claim C2 at the RUNNING message: when the task id of the message is not in the task
  table, \<^verbatim>\<open>_get\<close> returns the nil task, and the default branch of \<^verbatim>\<open>handleTaskRunning\<close>
  reads \<^verbatim>\<open>task.ID\<close> for its warning: \<^verbatim>\<open>updateStatus\<close> panics instead of returning.
\<close>

theorem updateStatus_unknown_running_panics:
  assumes "taskRegistry k (GetTaskId status) = None"
    and "GetState status = TASK_RUNNING"
  shows "updateStatus unmarshal now h k status = Inl NilPointerDereference"
  using assms by (simp add: updateStatus_def get'_def handleTaskRunning_def deref_def)

theorem updateStatus_unknown_running_panics_witness:
  "taskRegistry registry_T1 ''T9'' = None \<and>
   updateStatus unmarshal_net 5 heap2 registry_T1
       \<lparr>GetTaskId = ''T9'', GetState = TASK_RUNNING, Data = None\<rparr> =
     Inl NilPointerDereference"
  using updateStatus_unknown_running_panics
    [of registry_T1 "\<lparr>GetTaskId = ''T9'', GetState = TASK_RUNNING, Data = None\<rparr>"
      unmarshal_net 5 heap2]
  by (simp add: registry_T1_def)

text \<open>What \<^verbatim>\<open>updateStatus\<close> does with every message about a task that is not in the task
  table: but for RUNNING it changes nothing, logs one line and returns the nil task
  and the state Unknown.\<close>

lemma updateStatus_unknown_task:
  assumes "taskRegistry k (GetTaskId status) = None"
  shows "updateStatus unmarshal now h k status =
     (case GetState status of
        TASK_STAGING \<Rightarrow>
          Inr (h, k, (None, StateUnknown), [Log ERROR ''Not implemented: task staging''])
      | TASK_STARTING \<Rightarrow>
          Inr (h, k, (None, StateUnknown),
               [Log WARNING ''Ignore status TASK_STARTING because the the task is not pending''])
      | TASK_RUNNING \<Rightarrow> Inl NilPointerDereference
      | TASK_FINISHED \<Rightarrow>
          Inr (h, k, (None, StateUnknown),
               [Log WARNING ''Ignore status TASK_FINISHED because the the task is not running''])
      | TASK_FAILED \<Rightarrow> Inr (h, k, (None, StateUnknown), [Log ERROR ''task failed: %+v''])
      | TASK_KILLED \<Rightarrow>
          Inr (h, k, (None, StateUnknown), [Log ERROR ''task killed: %+v, task %+v''])
      | TASK_LOST \<Rightarrow> Inr (h, k, (None, StateUnknown), [Log WARNING ''task lost: %+v''])
      | TASK_OTHER \<Rightarrow>
          Inr (h, k, (None, StateUnknown),
               [Log WARNING ''unhandled task status update: %+v'']))"
  using assms
  by (simp add: updateStatus_def get'_def handleTaskStaging_def handleTaskStarting_def
      handleTaskRunning_def handleTaskFinished_def handleTaskFailed_def handleTaskKilled_def
      handleTaskLost_def deref_def split: TaskState.splits)

text \<open>
  Claim C6: for every task in state Pending, a RUNNING message moves the task to state
  Running and sets the pod's phase to Running, whatever the payload. The pod-info is
  the decoded payload when there is a payload and it decodes, and is untouched
  otherwise. The pod IP is written exactly when the decoded pod-info has a container
  \<^verbatim>\<open>net\<close> with a non-empty \<^verbatim>\<open>PodIP\<close>, and then it is that address. The registry is not
  changed, and \<^verbatim>\<open>updateStatus\<close> returns the task and the state Pending it found.
\<close>

theorem updateStatus_pending_running:
  assumes "taskRegistry k (GetTaskId status) = Some t"
    and "State (h t) = StatePending"
    and "GetState status = TASK_RUNNING"
  shows "\<exists>h' lg. updateStatus unmarshal now h k status = Inr (h', k, (Some t, StatePending), lg)
     \<and> State (h' t) = StateRunning
     \<and> Phase (Status (Pod (h' t))) = ''Running''
     \<and> Info (Status (Pod (h' t))) =
         (case Option.bind (Data status) unmarshal of
            None \<Rightarrow> Info (Status (Pod (h t)))
          | Some info \<Rightarrow> info)
     \<and> Status_PodIP (Status (Pod (h' t))) =
         (case Option.bind (Data status) unmarshal of
            None \<Rightarrow> Status_PodIP (Status (Pod (h t)))
          | Some info \<Rightarrow>
              (case info ''net'' of
                 None \<Rightarrow> Status_PodIP (Status (Pod (h t)))
               | Some c \<Rightarrow>
                   if PodIP c = '''' then Status_PodIP (Status (Pod (h t))) else PodIP c))"
  using assms
  by (auto simp add: updateStatus_def get'_def handleTaskRunning_def deref_def
      fillRunningPodInfo_def PodRunning_def NetContainerID_def Let_def
      split: option.splits)

theorem updateStatus_pending_running_witness:
  "taskRegistry registry_T1 ''T1'' = Some 0 \<and> State (heap2 0) = StatePending \<and>
   (\<exists>h' lg. updateStatus unmarshal_net 1 heap2 registry_T1
               \<lparr>GetTaskId = ''T1'', GetState = TASK_RUNNING, Data = Some ''net=10.0.0.7''\<rparr> =
             Inr (h', registry_T1, (Some 0, StatePending), lg)
      \<and> State (h' 0) = StateRunning
      \<and> Phase (Status (Pod (h' 0))) = ''Running''
      \<and> Info (Status (Pod (h' 0))) = [''net'' \<mapsto> \<lparr>PodIP = ''10.0.0.7''\<rparr>]
      \<and> Status_PodIP (Status (Pod (h' 0))) = ''10.0.0.7'')"
proof -
  have reg: "taskRegistry registry_T1 ''T1'' = Some 0"
    by (simp add: registry_T1_def)
  have st: "State (heap2 0) = StatePending"
    by (simp add: heap2_simps task_of_def)
  from updateStatus_pending_running
    [of registry_T1 "\<lparr>GetTaskId = ''T1'', GetState = TASK_RUNNING, Data = Some ''net=10.0.0.7''\<rparr>"
      0 heap2 unmarshal_net 1]
    reg st
  show ?thesis
    by (simp add: unmarshal_net_def)
qed

subsection \<open>Sequences of status messages\<close>

lemma recordFinished_tables:
  assumes "recordFinished h k taskId = Inr k'"
  shows "podToTask k' = podToTask k"
    and "taskRegistry k' x = Some a \<Longrightarrow> taskRegistry k x = Some a"
  using assms
  by (auto simp add: recordFinished_def recordFinishedTask_def Let_def
      split: if_splits option.splits sum.splits)

lemma updateStatus_step:
  assumes "updateStatus unmarshal now h k status = Inr (h', k', r, lg)"
  shows "state_le (State (h a)) (State (h' a))"
    and "taskRegistry k' x = Some b \<Longrightarrow> taskRegistry k x = Some b"
  using assms
  by (auto simp add: updateStatus_def get'_def handleTaskStaging_def handleTaskStarting_def
      handleTaskRunning_def handleTaskFinished_def handleTaskFailed_def handleTaskKilled_def
      handleTaskLost_def deref_def deleteBoth_def Let_def state_le_refl
      split: TaskState.splits StateType.splits option.splits sum.splits if_splits prod.splits
      dest: recordFinished_tables(2))

lemma msgs_T1_run:
  "\<exists>h' k'. updateStatusAll unmarshal_net heap2 registry_T1 msgs_T1 = Inr (h', k')
     \<and> State (h' 0) = StateFinished \<and> taskRegistry k' ''T1'' = Some 0"
  by (simp add: msgs_T1_def updateStatus_def get'_def handleTaskRunning_def
      handleTaskFinished_def deref_def fillRunningPodInfo_def recordFinished_def
      recordFinishedTask_def registry_T1_def NewInMemoryTaskRegistry_def ring_New_def
      defaultFinishedTasksSize_def heap2_simps task_of_def unmarshal_net_def Let_def)

text \<open>
  Claim C7: over every sequence of \<^verbatim>\<open>updateStatus\<close> calls that return, the state of every
  task object is, at the end, at or after its state at the start in the order Pending,
  Running, Finished; and an id that is in the task table at the end held the same task
  object at the start, so no id is moved to another task. The starting heap and registry
  are arbitrary, so the same holds between any two points of a sequence.
\<close>

theorem updateStatus_never_regresses:
  assumes "updateStatusAll unmarshal h k msgs = Inr (h', k')"
  shows "state_le (State (h a)) (State (h' a)) \<and>
         (\<forall>taskId t. taskRegistry k' taskId = Some t \<longrightarrow> taskRegistry k taskId = Some t)"
  using assms
proof (induction msgs arbitrary: h k)
  case Nil
  then show ?case by (simp add: state_le_refl)
next
  case (Cons m msgs)
  obtain now status where m: "m = (now, status)" by (cases m)
  from Cons.prems m obtain h1 k1 r lg where
    step: "updateStatus unmarshal now h k status = Inr (h1, k1, r, lg)" and
    rest: "updateStatusAll unmarshal h1 k1 msgs = Inr (h', k')"
    by (auto split: sum.splits)
  from Cons.IH [OF rest] updateStatus_step [OF step] show ?case
    by (blast intro: state_le_trans)
qed

theorem updateStatus_never_regresses_witness:
  "\<exists>h' k'. updateStatusAll unmarshal_net heap2 registry_T1 msgs_T1 = Inr (h', k')
     \<and> State (heap2 0) = StatePending \<and> State (h' 0) = StateFinished
     \<and> state_le (State (heap2 0)) (State (h' 0))
     \<and> taskRegistry k' ''T1'' = Some 0 \<and> taskRegistry registry_T1 ''T1'' = Some 0"
proof -
  from msgs_T1_run obtain h' k' where
    run: "updateStatusAll unmarshal_net heap2 registry_T1 msgs_T1 = Inr (h', k')" and
    fin: "State (h' 0) = StateFinished" and reg: "taskRegistry k' ''T1'' = Some 0"
    by blast
  from updateStatus_never_regresses [OF run, of 0] reg
  have "state_le (State (heap2 0)) (State (h' 0))"
    and "taskRegistry registry_T1 ''T1'' = Some 0"
    by blast+
  moreover have "State (heap2 0) = StatePending"
    by (simp add: heap2_simps task_of_def)
  ultimately show ?thesis using run fin reg by blast
qed

subsection \<open>The finished-task ring\<close>














section \<open>Properties of the configuration\<close>

text \<open>
  Claim C3: \<^verbatim>\<open>Config.Read\<close> hands \<^verbatim>\<open>gcfg\<close> a wrapper around a copy of the receiver and
  never copies the wrapper back, so whatever the file sets, the receiver is after the
  call what it was before.
\<close>

theorem Read_leaves_receiver:
  "fst (Read ReadInto c configReader) = c"
  by (simp add: Read_def split: option.splits sum.splits)

text \<open>A file that sets \<^verbatim>\<open>offer-ttl = 10s\<close>, read into the default configuration: the
  load succeeds, and \<^verbatim>\<open>OfferTTL\<close> is still the default of five seconds.\<close>

lemma Read_offer_ttl_not_overridden:
  "OfferTTL (fst (Read ReadInto_offer_ttl_10s CreateDefaultConfig (Some file))) = 5 * Second \<and>
   snd (Read ReadInto_offer_ttl_10s CreateDefaultConfig (Some file)) = None \<and>
   5 * Second \<noteq> 10 * Second"
  by (simp add: Read_def ReadInto_offer_ttl_10s_def CreateDefaultConfig_def SetDefaults_def
      zero_Config_def DefaultOfferTTL_def Second_def)

text \<open>Two of the keys are not the kebab-case names of their fields: the tags spell
  \<^verbatim>\<open>reconciliantion\<close>.\<close>

lemma gcfg_tag_misspelled:
  "gcfg_tag F_ExplicitReconciliationMaxBackoff \<noteq> ''explicit-reconciliation-max-backoff'' \<and>
   gcfg_tag F_ExplicitReconciliationAbortTimeout \<noteq> ''explicit-reconciliation-abort-timeout''"
  by simp

end
